theory Spec2Isabelle
  imports Complex_Main "HOL-Library.Word" "HOL-Library.Char_ord" "HOL-Library.List_Lexorder"
begin

section \<open>Exceptions\<close>

text \<open>
  The Python exceptions that a method of \<open>mask_app.py\<close> can leave with. \<open>AttributeError\<close>,
  \<open>IndexError\<close>, \<open>ValueError\<close> and \<open>AssertionError\<close> are raised by the program text itself
  (reading \<open>self.inference_state\<close> before it was ever assigned, indexing a tensor, stacking
  ragged arrays or the explicit \<open>raise ValueError\<close>, a failed \<open>assert\<close>). \<open>OSError\<close> stands
  for a failure of the file system (\<open>os.listdir\<close>, \<open>os.makedirs\<close>, \<open>imread\<close>, \<open>imwrite\<close>) and
  \<open>ModelError\<close> for an exception raised inside the external segmentation model.
  \<open>NoActiveSession\<close> is the error kind that the specification names; it is part of the type
  only so that statements can speak about it: no definition below ever produces it, as no
  line of the source does.
\<close>

datatype error =
    AttributeError
  | IndexError
  | ValueError
  | AssertionError
  | OSError
  | ModelError
  | NoActiveSession

section \<open>A model of the array operations the program uses\<close>

text \<open>
  A numpy array or torch tensor is its shape together with its elements in row-major
  order. A 0-dimensional array (a scalar) has shape \<open>[]\<close> and one element.
\<close>

datatype 'a ndarray = NDArray (shape: "nat list") (data: "'a list")

definition wf_array :: "'a ndarray \<Rightarrow> bool" where
  "wf_array a = (length (data a) = prod_list (shape a))"

definition ndim :: "'a ndarray \<Rightarrow> nat" where
  "ndim a = length (shape a)"

text \<open>\<open>a[i]\<close> for an index \<open>i\<close> taken from \<open>range(...)\<close>: the \<open>i\<close>-th slice along axis 0.\<close>

definition getitem :: "'a ndarray \<Rightarrow> nat \<Rightarrow> error + 'a ndarray" where
  "getitem a i =
     (case shape a of
        [] \<Rightarrow> Inl IndexError
      | n # s \<Rightarrow>
          if i < n
          then Inr (NDArray s (take (prod_list s) (drop (i * prod_list s) (data a))))
          else Inl IndexError)"

text \<open>\<open>a.squeeze()\<close> drops every axis of length 1 and keeps the elements.\<close>

definition squeeze :: "'a ndarray \<Rightarrow> 'a ndarray" where
  "squeeze a = NDArray (filter (\<lambda>d. d \<noteq> 1) (shape a)) (data a)"

text \<open>
  \<open>np.asarray\<close> of a Python list of arrays, as \<open>np.any(list, axis=0)\<close> performs it first: the
  arrays are stacked along a new first axis. The empty list gives an array of shape
  \<open>(0,)\<close>; arrays of different shapes are refused with a \<open>ValueError\<close>.
\<close>

fun asarray :: "'a ndarray list \<Rightarrow> error + 'a ndarray" where
  "asarray [] = Inr (NDArray [0] [])"
| "asarray (a # as) =
     (if list_all (\<lambda>b. shape b = shape a) as
      then Inr (NDArray (Suc (length as) # shape a) (concat (map data (a # as))))
      else Inl ValueError)"

text \<open>
  \<open>np.any(a, axis=0)\<close>: the logical OR along the first axis. Element \<open>j\<close> of the result is
  the OR of the elements \<open>j\<close> of the \<open>n\<close> slices; over zero slices it is \<open>False\<close>, so that an
  array of shape \<open>(0,)\<close> reduces to the scalar \<open>False\<close>.
\<close>

definition any_axis0 :: "bool ndarray \<Rightarrow> error + bool ndarray" where
  "any_axis0 a =
     (case shape a of
        [] \<Rightarrow> Inl ValueError
      | n # s \<Rightarrow>
          Inr (NDArray s
                (map (\<lambda>j. list_ex (\<lambda>i. data a ! (i * prod_list s + j)) [0..<n])
                     [0..<prod_list s])))"

definition np_any_axis0 :: "bool ndarray list \<Rightarrow> error + bool ndarray" where
  "np_any_axis0 ms = (case asarray ms of Inl e \<Rightarrow> Inl e | Inr a \<Rightarrow> any_axis0 a)"

text \<open>\<open>a.any()\<close>: some element is non-zero.\<close>

definition array_any :: "8 word ndarray \<Rightarrow> bool" where
  "array_any a = list_ex (\<lambda>v. v \<noteq> 0) (data a)"

section \<open>Logits and the per-frame mask of \<open>run_tracker\<close>\<close>

text \<open>
  A mask logit is a floating-point number that the program only ever compares with
  \<open>0.0\<close>. The comparison \<open>x > 0.0\<close> is false for NaN and for negative infinity and true
  for positive infinity.
\<close>

datatype logit = Finite real | PosInf | NegInf | NaN

fun gt_zero :: "logit \<Rightarrow> bool" where
  "gt_zero (Finite x) = (0 < x)"
| "gt_zero PosInf = True"
| "gt_zero NegInf = False"
| "gt_zero NaN = False"

text \<open>\<open>(t > 0.0)\<close> on a tensor, elementwise.\<close>

definition gt_zero_array :: "logit ndarray \<Rightarrow> bool ndarray" where
  "gt_zero_array t = NDArray (shape t) (map gt_zero (data t))"

text \<open>
  A list comprehension whose element expression can raise: the elements are computed from
  left to right and the first exception ends the comprehension.
\<close>

fun comprehension :: "('a \<Rightarrow> error + 'b) \<Rightarrow> 'a list \<Rightarrow> error + 'b list" where
  "comprehension f [] = Inr []"
| "comprehension f (x # xs) =
     (case f x of
        Inl e \<Rightarrow> Inl e
      | Inr y \<Rightarrow> (case comprehension f xs of Inl e \<Rightarrow> Inl e | Inr ys \<Rightarrow> Inr (y # ys)))"

text \<open>
  \<open>bool_masks = [(mask_logits[i] > 0.0).squeeze().cpu().numpy() for i in range(len(obj_ids))]\<close>
\<close>

definition bool_masks :: "int list \<Rightarrow> logit ndarray \<Rightarrow> error + bool ndarray list" where
  "bool_masks obj_ids mask_logits =
     comprehension
       (\<lambda>i. case getitem mask_logits i of
               Inl e \<Rightarrow> Inl e
             | Inr t \<Rightarrow> Inr (squeeze (gt_zero_array t)))
       [0..<length obj_ids]"

text \<open>
  \<open>grayscale = (~binary).astype(np.uint8) * 255\<close>: the mask is negated first, then \<open>True\<close>
  becomes 1 and \<open>False\<close> becomes 0, and the product with 255 is taken in 8 bits.
\<close>

definition grayscale :: "bool ndarray \<Rightarrow> 8 word ndarray" where
  "grayscale binary =
     NDArray (shape binary) (map (\<lambda>b. (if \<not> b then 1 else 0) * 255) (data binary))"

text \<open>The body of the loop of \<open>run_tracker\<close> for one item of the generator.\<close>

definition frame_mask :: "int list \<Rightarrow> logit ndarray \<Rightarrow> error + 8 word ndarray" where
  "frame_mask obj_ids mask_logits =
     (case bool_masks obj_ids mask_logits of
        Inl e \<Rightarrow> Inl e
      | Inr ms \<Rightarrow>
          (case np_any_axis0 ms of
             Inl e \<Rightarrow> Inl e
           | Inr binary \<Rightarrow> Inr (grayscale binary)))"

section \<open>Dictionaries that keep insertion order\<close>

text \<open>
  \<open>video_masks[frame_idx] = grayscale\<close>: a key that is present keeps its position and gets
  the new value, a new key is appended.
\<close>

fun dict_set :: "'k \<Rightarrow> 'v \<Rightarrow> ('k \<times> 'v) list \<Rightarrow> ('k \<times> 'v) list" where
  "dict_set k v [] = [(k, v)]"
| "dict_set k v ((k', v') # d) =
     (if k' = k then (k, v) # d else (k', v') # dict_set k v d)"

text \<open>One item of \<open>propagate_in_video\<close>: \<open>(frame_idx, obj_ids, mask_logits)\<close>.\<close>

type_synonym frame_item = "int \<times> int list \<times> logit ndarray"

fun track_loop ::
  "frame_item list \<Rightarrow> (int \<times> 8 word ndarray) list \<Rightarrow> error + (int \<times> 8 word ndarray) list"
where
  "track_loop [] video_masks = Inr video_masks"
| "track_loop ((frame_idx, obj_ids, mask_logits) # items) video_masks =
     (case frame_mask obj_ids mask_logits of
        Inl e \<Rightarrow> Inl e
      | Inr g \<Rightarrow> track_loop items (dict_set frame_idx g video_masks))"

text \<open>\<open>[video_masks[i] for i in sorted(video_masks)]\<close>\<close>

definition chronological :: "(int \<times> 'v) list \<Rightarrow> 'v list" where
  "chronological video_masks =
     List.map_filter (map_of video_masks) (sort (map fst video_masks))"

section \<open>File names\<close>

text \<open>
  A file name is a \<open>string\<close> whose characters are read as the code points 0 to 255.
  \<open>str.lower\<close> maps \<open>A\<close> to \<open>Z\<close> and the upper-case letters of Latin-1 (192 to 222, without
  the multiplication sign 215) to the code point 32 above and leaves every other such
  character as it is.
\<close>

definition lower_char :: "char \<Rightarrow> char" where
  "lower_char c =
     (let n = (of_char c :: nat)
      in if (65 \<le> n \<and> n \<le> 90) \<or> (192 \<le> n \<and> n \<le> 222 \<and> n \<noteq> 215)
         then char_of (n + 32) else c)"

definition lower :: "string \<Rightarrow> string" where
  "lower p = map lower_char p"

text \<open>\<open>p.rfind(c)\<close>: the last index of \<open>c\<close> in \<open>p\<close>, or \<open>-1\<close>.\<close>

fun rfind :: "'a list \<Rightarrow> 'a \<Rightarrow> int" where
  "rfind [] c = - 1"
| "rfind (x # xs) c =
     (let r = rfind xs c in if 0 \<le> r then r + 1 else if x = c then 0 else - 1)"

text \<open>
  \<open>os.path.splitext\<close> of \<open>posixpath\<close>: the extension starts at the last dot, provided that
  dot lies after the last \<open>/\<close> and some character between the two is not a dot (leading
  dots of the file name do not start an extension).
\<close>

definition splitext :: "string \<Rightarrow> string \<times> string" where
  "splitext p =
     (let sepIndex = rfind p (CHR ''/'');
          dotIndex = rfind p (CHR ''.'')
      in if sepIndex < dotIndex \<and>
            list_ex (\<lambda>c. c \<noteq> CHR ''.'')
              (take (nat (dotIndex - (sepIndex + 1))) (drop (nat (sepIndex + 1)) p))
         then (take (nat dotIndex) p, drop (nat dotIndex) p)
         else (p, []))"

definition isimage :: "string \<Rightarrow> bool" where
  "isimage p = (snd (splitext (lower p)) \<in> set [''.png'', ''.jpg'', ''.jpeg''])"

text \<open>
  \<open>Path(img_path).stem\<close>: the final component of the path without its last suffix. The
  final component is taken as the text after the last \<open>/\<close>, which is what \<open>pathlib\<close>
  gives for every path that does not end in \<open>/\<close> or \<open>/.\<close>; a path that \<open>isimage\<close> accepts
  ends in an image extension.
\<close>

definition path_name :: "string \<Rightarrow> string" where
  "path_name p = drop (nat (rfind p (CHR ''/'') + 1)) p"

definition stem :: "string \<Rightarrow> string" where
  "stem p =
     (let name = path_name p; i = rfind name (CHR ''.'')
      in if 0 < i \<and> i < int (length name) - 1 then take (nat i) name else name)"

section \<open>The session object \<open>PromptGUI\<close>\<close>

text \<open>
  The fields of \<open>PromptGUI\<close> as \<open>__init__\<close> assigns them, and \<open>inference_state\<close>, which
  \<open>__init__\<close> does not assign: the attribute exists only once \<open>get_sam_features\<close> has stored
  it, so it is \<open>None\<close> here while it is missing from the object. The model and its
  inference state belong to the external library; they are opaque tokens. Coordinates of
  clicks are integers, the label of a click is the float \<open>1.0\<close> or \<open>0.0\<close>.
\<close>

datatype sam_model = Predictor string string

type_synonym inference_state = nat

type_synonym image = "8 word ndarray"

record prompt_gui =
  checkpoint_dir :: string
  model_cfg :: string
  sam_model :: "sam_model option"
  selected_points :: "(int \<times> int) list"
  selected_labels :: "rat list"
  cur_label_val :: rat
  frame_index :: int
  image :: "image option"
  cur_mask_idx :: int
  cur_masks :: "(int \<times> bool ndarray) list"
  cur_logits :: "(int \<times> logit ndarray) list"
  index_masks_all :: "8 word ndarray list"
  color_masks_all :: "8 word ndarray list"
  img_dir :: string
  img_paths :: "string list"
  inference_state :: "inference_state option"

text \<open>
  \<open>__init__\<close> followed by \<open>init_sam_model\<close>, which builds the predictor from the
  configuration and the checkpoint.
\<close>

definition init_gui :: "string \<Rightarrow> string \<Rightarrow> prompt_gui" where
  "init_gui ckpt cfg =
     \<lparr> checkpoint_dir = ckpt, model_cfg = cfg, sam_model = Some (Predictor cfg ckpt),
       selected_points = [], selected_labels = [], cur_label_val = 1,
       frame_index = 0, image = None, cur_mask_idx = 0,
       cur_masks = [], cur_logits = [], index_masks_all = [], color_masks_all = [],
       img_dir = [], img_paths = [], inference_state = None \<rparr>"

definition clear_points :: "prompt_gui \<Rightarrow> prompt_gui" where
  "clear_points s = s\<lparr> selected_points := [], selected_labels := [] \<rparr>"

definition add_new_mask :: "prompt_gui \<Rightarrow> prompt_gui" where
  "add_new_mask s = clear_points (s\<lparr> cur_mask_idx := cur_mask_idx s + 1 \<rparr>)"

text \<open>\<open>_clear_image\<close>\<close>

definition clear_image :: "prompt_gui \<Rightarrow> prompt_gui" where
  "clear_image s =
     s\<lparr> image := None, cur_mask_idx := 0, frame_index := 0, cur_masks := [],
        cur_logits := [], index_masks_all := [], color_masks_all := [] \<rparr>"

text \<open>
  \<open>reset\<close>: \<open>_clear_image\<close> runs first; then \<open>self.sam_model.reset_state\<close> is looked up and
  its argument \<open>self.inference_state\<close> is read, which raises \<open>AttributeError\<close> when the
  attribute was never assigned. \<open>reset_state\<close> is the call into the model: it says whether
  the model raises.
\<close>

definition reset ::
  "(inference_state \<Rightarrow> error option) \<Rightarrow> prompt_gui \<Rightarrow> (error + unit) \<times> prompt_gui"
where
  "reset reset_state s =
     (let s1 = clear_image s
      in case sam_model s1 of
           None \<Rightarrow> (Inl AttributeError, s1)
         | Some m \<Rightarrow>
             (case inference_state s1 of
                None \<Rightarrow> (Inl AttributeError, s1)
              | Some h \<Rightarrow>
                  (case reset_state h of
                     Some e \<Rightarrow> (Inl e, s1)
                   | None \<Rightarrow> (Inr (), s1))))"

text \<open>
  \<open>set_img_dir\<close>: \<open>listdir\<close> is \<open>os.listdir\<close>, the entries of the directory in the order the
  operating system gives them, or its exception. The state is cleared and \<open>img_dir\<close> is
  stored before the directory is read.
\<close>

definition set_img_dir ::
  "(string \<Rightarrow> error + string list) \<Rightarrow> string \<Rightarrow> prompt_gui \<Rightarrow> (error + nat) \<times> prompt_gui"
where
  "set_img_dir listdir dir s =
     (let s1 = (clear_image s)\<lparr> img_dir := dir \<rparr>
      in case listdir dir of
           Inl e \<Rightarrow> (Inl e, s1)
         | Inr entries \<Rightarrow>
             (let paths = map (\<lambda>p. dir @ ''/'' @ p) (filter isimage (sort entries))
              in (Inr (length paths), s1\<lparr> img_paths := paths \<rparr>)))"

text \<open>
  \<open>set_input_image\<close>: an index outside the sequence returns the current image and changes
  nothing. Otherwise the points are cleared and the index is stored before the file is
  read; \<open>imread\<close> is the image reader, with its exception.
\<close>

definition set_input_image ::
  "(string \<Rightarrow> error + image) \<Rightarrow> int \<Rightarrow> prompt_gui \<Rightarrow> (error + image option) \<times> prompt_gui"
where
  "set_input_image imread i s =
     (if i < 0 \<or> int (length (img_paths s)) \<le> i then (Inr (image s), s)
      else
        (let s1 = (clear_points s)\<lparr> frame_index := i \<rparr>
         in case imread (img_paths s ! nat i) of
              Inl e \<Rightarrow> (Inl e, s1)
            | Inr img \<Rightarrow> (Inr (Some img), s1\<lparr> image := Some img \<rparr>)))"

text \<open>
  \<open>get_sam_features\<close>: \<open>init_state\<close> and \<open>reset_state\<close> are the calls into the model. The
  new inference state is stored before \<open>reset_state\<close> runs.
\<close>

definition get_sam_features ::
  "(string \<Rightarrow> error + inference_state) \<Rightarrow> (inference_state \<Rightarrow> error option) \<Rightarrow>
   prompt_gui \<Rightarrow> (error + image option) \<times> prompt_gui"
where
  "get_sam_features init_state reset_state s =
     (case sam_model s of
        None \<Rightarrow> (Inl AttributeError, s)
      | Some m \<Rightarrow>
          (case init_state (img_dir s) of
             Inl e \<Rightarrow> (Inl e, s)
           | Inr h \<Rightarrow>
               (let s1 = s\<lparr> inference_state := Some h \<rparr>
                in case reset_state h of
                     Some e \<Rightarrow> (Inl e, s1)
                   | None \<Rightarrow> (Inr (image s1), s1))))"

definition set_positive :: "prompt_gui \<Rightarrow> prompt_gui" where
  "set_positive s = s\<lparr> cur_label_val := 1 \<rparr>"

definition set_negative :: "prompt_gui \<Rightarrow> prompt_gui" where
  "set_negative s = s\<lparr> cur_label_val := 0 \<rparr>"

subsection \<open>Adding a point\<close>

text \<open>
  The answer of \<open>add_new_points_or_box\<close> that the program uses: \<open>out_obj_ids\<close> and
  \<open>out_mask_logits\<close>. The model is called with the inference state, the frame index, the
  current mask index and all the points and labels selected so far.
\<close>

type_synonym points_call =
  "inference_state \<Rightarrow> int \<Rightarrow> int \<Rightarrow> (int \<times> int) list \<Rightarrow> rat list \<Rightarrow> error + int list \<times> logit ndarray"

text \<open>
  The dictionary comprehension of \<open>get_sam_mask\<close> over \<open>enumerate(out_obj_ids)\<close>: the value for
  \<open>out_obj_id\<close> is \<open>(out_mask_logits[i] > 0.0).squeeze()\<close>.
\<close>

fun mask_dict ::
  "logit ndarray \<Rightarrow> (nat \<times> int) list \<Rightarrow> (int \<times> bool ndarray) list \<Rightarrow>
   error + (int \<times> bool ndarray) list"
where
  "mask_dict logits [] d = Inr d"
| "mask_dict logits ((i, out_obj_id) # rest) d =
     (case getitem logits i of
        Inl e \<Rightarrow> Inl e
      | Inr t \<Rightarrow> mask_dict logits rest (dict_set out_obj_id (squeeze (gt_zero_array t)) d))"

definition get_sam_mask ::
  "points_call \<Rightarrow> int \<Rightarrow> (int \<times> int) list \<Rightarrow> rat list \<Rightarrow> prompt_gui \<Rightarrow>
   error + (int \<times> bool ndarray) list"
where
  "get_sam_mask add_new_points_or_box frame_idx input_points input_labels s =
     (case sam_model s of
        None \<Rightarrow> Inl AssertionError
      | Some m \<Rightarrow>
          (case inference_state s of
             None \<Rightarrow> Inl AttributeError
           | Some h \<Rightarrow>
               (case add_new_points_or_box h frame_idx (cur_mask_idx s) input_points input_labels of
                  Inl e \<Rightarrow> Inl e
                | Inr (out_obj_ids, out_mask_logits) \<Rightarrow>
                    mask_dict out_mask_logits (enumerate 0 out_obj_ids) [])))"

text \<open>
  \<open>idx_mask[mask] = i + 1\<close>: assignment through a boolean index of the same shape. The
  value is stored in 8 bits.
\<close>

definition setitem_bool :: "8 word ndarray \<Rightarrow> bool ndarray \<Rightarrow> 8 word \<Rightarrow> error + 8 word ndarray" where
  "setitem_bool a m v =
     (if shape m = shape a
      then Inr (NDArray (shape a) (map (\<lambda>(x, b). if b then v else x) (zip (data a) (data m))))
      else Inl IndexError)"

fun index_loop :: "(int \<times> bool ndarray) list \<Rightarrow> 8 word ndarray \<Rightarrow> error + 8 word ndarray" where
  "index_loop [] idx_mask = Inr idx_mask"
| "index_loop ((i, m) # rest) idx_mask =
     (case setitem_bool idx_mask m (word_of_int (i + 1)) of
        Inl e \<Rightarrow> Inl e
      | Inr idx_mask' \<Rightarrow> index_loop rest idx_mask')"

definition make_index_mask :: "(int \<times> bool ndarray) list \<Rightarrow> error + 8 word ndarray" where
  "make_index_mask masks =
     (case masks of
        [] \<Rightarrow> Inl AssertionError
      | (i0, m0) # rest \<Rightarrow>
          index_loop masks (NDArray (shape m0) (map (\<lambda>b. if b then 1 else 0) (data m0))))"

text \<open>
  \<open>add_point\<close>: the point \<open>[j, i]\<close> and the current label are appended first, so they stay
  in the session also when what follows raises.
\<close>

definition add_point ::
  "points_call \<Rightarrow> int \<Rightarrow> int \<Rightarrow> int \<Rightarrow> prompt_gui \<Rightarrow> (error + 8 word ndarray) \<times> prompt_gui"
where
  "add_point add_new_points_or_box frame_idx i j s =
     (let s1 = s\<lparr> selected_points := selected_points s @ [(j, i)],
                  selected_labels := selected_labels s @ [cur_label_val s] \<rparr>
      in case get_sam_mask add_new_points_or_box frame_idx
                (selected_points s1) (selected_labels s1) s1 of
           Inl e \<Rightarrow> (Inl e, s1)
         | Inr masks \<Rightarrow>
             (case make_index_mask masks of
                Inl e \<Rightarrow> (Inl e, s1)
              | Inr idx_mask \<Rightarrow> (Inr idx_mask, s1)))"

subsection \<open>Propagation\<close>

text \<open>
  \<open>propagate_in_video\<close> is a generator: it yields a finite list of items and then either
  ends or raises. \<open>run_tracker\<close> returns the number of masks that its message reports.
  \<open>color_masks_all\<close> is assigned only after the loop, so an exception leaves it as it was.
\<close>

definition run_tracker ::
  "(inference_state \<Rightarrow> frame_item list \<times> error option) \<Rightarrow> prompt_gui \<Rightarrow>
   (error + nat) \<times> prompt_gui"
where
  "run_tracker propagate_in_video s =
     (case sam_model s of
        None \<Rightarrow> (Inl AttributeError, s)
      | Some m \<Rightarrow>
          (case inference_state s of
             None \<Rightarrow> (Inl AttributeError, s)
           | Some h \<Rightarrow>
               (case propagate_in_video h of
                  (items, raised) \<Rightarrow>
                    (case track_loop items [] of
                       Inl e \<Rightarrow> (Inl e, s)
                     | Inr video_masks \<Rightarrow>
                         (case raised of
                            Some e \<Rightarrow> (Inl e, s)
                          | None \<Rightarrow>
                              (let masks = chronological video_masks
                               in (Inr (length masks), s\<lparr> color_masks_all := masks \<rparr>)))))))"

subsection \<open>Export\<close>

text \<open>
  What \<open>save_masks_to_dir\<close> asks of the file system: \<open>os.makedirs(output_dir)\<close> and
  \<open>imwrite\<close> of a mask to the file of the given name inside \<open>output_dir\<close>. \<open>fails\<close> says which
  requests the file system refuses. The function returns its message, or its exception,
  and the requests that were carried out, in order.
\<close>

datatype fs_action = MakeDirs string | ImWrite string string "8 word ndarray"

datatype export_result = NoMasksToExport | AllMasksEmpty | Saved nat string

fun write_loop ::
  "(fs_action \<Rightarrow> bool) \<Rightarrow> string \<Rightarrow> (string \<times> 8 word ndarray) list \<Rightarrow> fs_action list \<Rightarrow>
   error option \<times> fs_action list"
where
  "write_loop fails output_dir [] acts = (None, acts)"
| "write_loop fails output_dir ((img_path, m) # rest) acts =
     (if ndim m \<noteq> 2 then (Some ValueError, acts)
      else
        (let w = ImWrite output_dir (stem img_path @ ''.mask.png'') m
         in if fails w then (Some OSError, acts)
            else write_loop fails output_dir rest (acts @ [w])))"

definition save_masks_to_dir ::
  "(fs_action \<Rightarrow> bool) \<Rightarrow> string \<Rightarrow> prompt_gui \<Rightarrow> (error + export_result) \<times> fs_action list"
where
  "save_masks_to_dir fails output_dir s =
     (let masks = color_masks_all s
      in if masks = [] then (Inr NoMasksToExport, [])
         else if \<not> list_ex array_any masks then (Inr AllMasksEmpty, [])
         else if fails (MakeDirs output_dir) then (Inl OSError, [])
         else
           (case write_loop fails output_dir (zip (img_paths s) masks) [MakeDirs output_dir] of
              (Some e, acts) \<Rightarrow> (Inl e, acts)
            | (None, acts) \<Rightarrow> (Inr (Saved (length masks) output_dir), acts)))"

subsection \<open>Sessions as sequences of calls\<close>

text \<open>
  The GUI runs one callback at a time. A call is a method of \<open>PromptGUI\<close> with its
  arguments and with what the outside world answers during that call. \<open>exec\<close> is the
  session after the call, whether the call returned or raised: Python keeps every
  assignment made before an exception.
\<close>

datatype call =
    ClearPoints
  | AddNewMask
  | Reset "inference_state \<Rightarrow> error option"
  | SetImgDir "string \<Rightarrow> error + string list" string
  | SetInputImage "string \<Rightarrow> error + image" int
  | GetSamFeatures "string \<Rightarrow> error + inference_state" "inference_state \<Rightarrow> error option"
  | SetPositive
  | SetNegative
  | AddPoint points_call int int int
  | RunTracker "inference_state \<Rightarrow> frame_item list \<times> error option"
  | SaveMasksToDir "fs_action \<Rightarrow> bool" string

fun exec :: "call \<Rightarrow> prompt_gui \<Rightarrow> prompt_gui" where
  "exec ClearPoints s = clear_points s"
| "exec AddNewMask s = add_new_mask s"
| "exec (Reset reset_state) s = snd (reset reset_state s)"
| "exec (SetImgDir listdir dir) s = snd (set_img_dir listdir dir s)"
| "exec (SetInputImage imread i) s = snd (set_input_image imread i s)"
| "exec (GetSamFeatures init_state reset_state) s = snd (get_sam_features init_state reset_state s)"
| "exec SetPositive s = set_positive s"
| "exec SetNegative s = set_negative s"
| "exec (AddPoint model frame_idx i j) s = snd (add_point model frame_idx i j s)"
| "exec (RunTracker propagate_in_video) s = snd (run_tracker propagate_in_video s)"
| "exec (SaveMasksToDir fails output_dir) s = s"

definition session :: "string \<Rightarrow> string \<Rightarrow> call list \<Rightarrow> prompt_gui" where
  "session ckpt cfg calls = fold exec calls (init_gui ckpt cfg)"

fun is_get_sam_features :: "call \<Rightarrow> bool" where
  "is_get_sam_features (GetSamFeatures init_state reset_state) = True"
| "is_get_sam_features c = False"

section \<open>A concrete session\<close>

text \<open>
  An outside world for concrete runs: a directory with three images and a text file, a
  reader that returns a one-pixel image, a model that hands out the inference state 0,
  answers a click with one object on a 2 by 2 frame and propagates over two frames, and a
  file system that refuses nothing.
\<close>

definition ex_listdir :: "string \<Rightarrow> error + string list" where
  "ex_listdir dir = Inr [''00002.png'', ''notes.txt'', ''00001.JPG'', ''00003.jpeg'']"

definition ex_imread :: "string \<Rightarrow> error + image" where
  "ex_imread path = Inr (NDArray [1, 1, 3] [0, 0, 0])"

definition ex_init_state :: "string \<Rightarrow> error + inference_state" where
  "ex_init_state dir = Inr 0"

definition ex_reset_state :: "inference_state \<Rightarrow> error option" where
  "ex_reset_state h = None"

definition ex_logits :: "logit ndarray" where
  "ex_logits = NDArray [1, 1, 2, 2] [Finite 1, Finite (- 1), Finite (- 1), Finite (- 1)]"

definition ex_points_call :: points_call where
  "ex_points_call h frame_idx obj_id points labels = Inr ([obj_id], ex_logits)"

definition ex_propagate :: "inference_state \<Rightarrow> frame_item list \<times> error option" where
  "ex_propagate h = ([(0, [0], ex_logits), (1, [0], ex_logits)], None)"

definition ex_fs :: "fs_action \<Rightarrow> bool" where
  "ex_fs a = False"

text \<open>A session that loaded the directory, initialised the model and clicked once.\<close>

definition ex_session :: prompt_gui where
  "ex_session =
     session ''ckpt'' ''cfg''
       [SetImgDir ex_listdir ''d'', GetSamFeatures ex_init_state ex_reset_state,
        AddPoint ex_points_call 0 4 7]"

section \<open>The mask of a frame, pixel by pixel\<close>

text \<open>
  \<open>some_object_at obj_ids mask_logits j\<close>: at least one of the objects has a positive logit
  at pixel \<open>j\<close> of the frame, where the pixels of a frame are counted in row-major order and
  object \<open>i\<close> owns the \<open>i\<close>-th slice of \<open>mask_logits\<close>.
\<close>

definition some_object_at :: "int list \<Rightarrow> logit ndarray \<Rightarrow> nat \<Rightarrow> bool" where
  "some_object_at obj_ids mask_logits j =
     list_ex (\<lambda>i. gt_zero (data mask_logits ! (i * prod_list (tl (shape mask_logits)) + j)))
       [0..<length obj_ids]"

text \<open>
  The collapse of all object masks of a frame into one mask: a pixel gets the value \<open>fg\<close>
  where some object is present and \<open>bg\<close> elsewhere; the axes of length 1 of a slice are
  dropped. The claim about \<open>run_tracker\<close> reads "a pixel is foreground exactly when at
  least one object's mask is true there, converted to 0/255", which is
  \<open>collapsed_mask 255 0\<close>.
\<close>

definition collapsed_mask :: "8 word \<Rightarrow> 8 word \<Rightarrow> int list \<Rightarrow> logit ndarray \<Rightarrow> 8 word ndarray" where
  "collapsed_mask fg bg obj_ids mask_logits =
     NDArray (filter (\<lambda>d. d \<noteq> 1) (tl (shape mask_logits)))
       (map (\<lambda>j. if some_object_at obj_ids mask_logits j then fg else bg)
          [0..<prod_list (tl (shape mask_logits))])"

text \<open>
  An item of the generator is well formed when it reports at least one object and its
  logits are a tensor with a slice for every reported object.
\<close>

definition wf_item :: "frame_item \<Rightarrow> bool" where
  "wf_item item =
     (case item of (frame_idx, obj_ids, mask_logits) \<Rightarrow>
        obj_ids \<noteq> [] \<and> wf_array mask_logits \<and>
        (case shape mask_logits of [] \<Rightarrow> False | n # s \<Rightarrow> length obj_ids \<le> n))"

text \<open>
  Two more answers of the model: a frame for which it reports no object at all, and a
  frame of height 1.
\<close>

definition ex_no_logits :: "logit ndarray" where
  "ex_no_logits = NDArray [0, 1, 2, 2] []"

definition ex_flat_logits :: "logit ndarray" where
  "ex_flat_logits = NDArray [1, 1, 1, 2] [Finite 1, Finite (- 1)]"

definition ex_propagate_no_objects :: "inference_state \<Rightarrow> frame_item list \<times> error option" where
  "ex_propagate_no_objects h = ([(0, [], ex_no_logits)], None)"

definition ex_propagate_flat :: "inference_state \<Rightarrow> frame_item list \<times> error option" where
  "ex_propagate_flat h = ([(0, [0], ex_flat_logits)], None)"

text \<open>The concrete session after propagation.\<close>

definition ex_tracked :: prompt_gui where
  "ex_tracked = snd (run_tracker ex_propagate ex_session)"

section \<open>Properties of the session object\<close>

subsection \<open>What a call leaves unchanged\<close>

lemma exec_points_labels:
  "length (selected_points s) = length (selected_labels s) \<Longrightarrow>
   length (selected_points (exec c s)) = length (selected_labels (exec c s))"
  by (cases c)
    (auto simp: clear_points_def add_new_mask_def reset_def clear_image_def set_img_dir_def
      set_input_image_def get_sam_features_def set_positive_def set_negative_def add_point_def
      run_tracker_def Let_def split: option.splits sum.splits prod.splits)

lemma fold_exec_points_labels:
  "length (selected_points s) = length (selected_labels s) \<Longrightarrow>
   length (selected_points (fold exec cs s)) = length (selected_labels (fold exec cs s))"
  by (induction cs arbitrary: s) (auto simp: exec_points_labels)

lemma exec_sam_model: "sam_model (exec c s) = sam_model s"
  by (cases c)
    (auto simp: clear_points_def add_new_mask_def reset_def clear_image_def set_img_dir_def
      set_input_image_def get_sam_features_def set_positive_def set_negative_def add_point_def
      run_tracker_def Let_def split: option.splits sum.splits prod.splits)

lemma exec_inference_state:
  "\<not> is_get_sam_features c \<Longrightarrow> inference_state (exec c s) = inference_state s"
  by (cases c)
    (auto simp: clear_points_def add_new_mask_def reset_def clear_image_def set_img_dir_def
      set_input_image_def set_positive_def set_negative_def add_point_def
      run_tracker_def Let_def split: option.splits sum.splits prod.splits)

lemma fold_exec_sam_model: "sam_model (fold exec cs s) = sam_model s"
  by (induction cs arbitrary: s) (simp_all add: exec_sam_model)

lemma fold_exec_inference_state:
  "list_all (\<lambda>c. \<not> is_get_sam_features c) cs \<Longrightarrow>
   inference_state (fold exec cs s) = inference_state s"
  by (induction cs arbitrary: s) (simp_all add: exec_inference_state)

lemma add_point_no_state:
  assumes "sam_model s \<noteq> None" and "inference_state s = None"
  shows "add_point model frame_idx i j s =
     (Inl AttributeError,
      s\<lparr> selected_points := selected_points s @ [(j, i)],
         selected_labels := selected_labels s @ [cur_label_val s] \<rparr>)"
  using assms by (auto simp: add_point_def get_sam_mask_def Let_def)

subsection \<open>The concrete session, evaluated\<close>

lemma ex_session_eq:
  "ex_session =
     \<lparr> checkpoint_dir = ''ckpt'', model_cfg = ''cfg'',
       sam_model = Some (Predictor ''cfg'' ''ckpt''),
       selected_points = [(7, 4)], selected_labels = [1], cur_label_val = 1,
       frame_index = 0, image = None, cur_mask_idx = 0,
       cur_masks = [], cur_logits = [], index_masks_all = [], color_masks_all = [],
       img_dir = ''d'', img_paths = [''d/00001.JPG'', ''d/00002.png'', ''d/00003.jpeg''],
       inference_state = Some 0 \<rparr>"
  by code_simp

subsection \<open>Points and labels\<close>

text \<open>
  Claim C9. In every session, that is after any sequence of calls of the methods of
  \<open>PromptGUI\<close> on a freshly constructed object, whatever the outside world answers and
  whether the calls return or raise, the number of accumulated points equals the number
  of accumulated labels.
\<close>

theorem points_match_labels:
  "length (selected_points (session ckpt cfg calls))
     = length (selected_labels (session ckpt cfg calls))"
  unfolding session_def by (rule fold_exec_points_labels) (simp add: init_gui_def)

subsection \<open>Reset right after loading a directory\<close>

text \<open>
  Claim C2, evaluated on the code. On a freshly constructed object, loading a directory
  and calling \<open>reset\<close> at once does not succeed: \<open>reset\<close> clears the fields and then raises
  \<open>AttributeError\<close>, because \<open>inference_state\<close> is assigned by \<open>get_sam_features\<close> only. This
  holds for every directory, whatever \<open>os.listdir\<close> and the model answer. The fields that
  the claim lists are empty after the failed call.
\<close>

theorem reset_after_load_raises:
  "fst (reset reset_state (snd (set_img_dir listdir dir (init_gui ckpt cfg))))
     = Inl AttributeError \<and>
   cur_mask_idx (snd (reset reset_state (snd (set_img_dir listdir dir (init_gui ckpt cfg))))) = 0 \<and>
   selected_points (snd (reset reset_state (snd (set_img_dir listdir dir (init_gui ckpt cfg))))) = [] \<and>
   selected_labels (snd (reset reset_state (snd (set_img_dir listdir dir (init_gui ckpt cfg))))) = [] \<and>
   cur_masks (snd (reset reset_state (snd (set_img_dir listdir dir (init_gui ckpt cfg))))) = [] \<and>
   cur_logits (snd (reset reset_state (snd (set_img_dir listdir dir (init_gui ckpt cfg))))) = [] \<and>
   index_masks_all (snd (reset reset_state (snd (set_img_dir listdir dir (init_gui ckpt cfg))))) = [] \<and>
   color_masks_all (snd (reset reset_state (snd (set_img_dir listdir dir (init_gui ckpt cfg))))) = []"
  by (simp add: reset_def set_img_dir_def clear_image_def init_gui_def Let_def split: sum.splits)

subsection \<open>Selecting a frame\<close>

text \<open>
  Claim C3 as stated fails. In the concrete session three frames are loaded, frame 0 is
  selected and one point is pending. Selecting frame 5 does not move to the last frame 2
  and does not clear the point: the frame index stays 0 and the point stays.
\<close>

theorem set_input_image_clamp_counterexample:
  "length (img_paths ex_session) = 3 \<and>
   frame_index (snd (set_input_image ex_imread 5 ex_session)) = 0 \<and>
   selected_points (snd (set_input_image ex_imread 5 ex_session)) = [(7, 4)]"
  by (simp add: ex_session_eq set_input_image_def)

text \<open>
  Claim C3, amended. For an index \<open>i\<close> inside the loaded sequence, \<open>set_input_image\<close> stores
  \<open>i\<close> as the frame index and clears the pending points and labels (also when reading the
  image file then fails). For an index outside the sequence, negative or at least the
  number of frames, it does not fail: it returns the current image and leaves the whole
  session, frame index and pending points included, as it was.
\<close>

theorem set_input_image_cases:
  "(0 \<le> i \<and> i < int (length (img_paths s)) \<longrightarrow>
      frame_index (snd (set_input_image imread i s)) = i \<and>
      selected_points (snd (set_input_image imread i s)) = [] \<and>
      selected_labels (snd (set_input_image imread i s)) = []) \<and>
   (i < 0 \<or> int (length (img_paths s)) \<le> i \<longrightarrow>
      set_input_image imread i s = (Inr (image s), s))"
  by (auto simp: set_input_image_def clear_points_def Let_def split: sum.splits)

theorem set_input_image_cases_witness:
  "(0::int) \<le> 1 \<and> 1 < int (length (img_paths ex_session)) \<and>
   frame_index (snd (set_input_image ex_imread 1 ex_session)) = 1 \<and>
   selected_points (snd (set_input_image ex_imread 1 ex_session)) = [] \<and>
   selected_labels (snd (set_input_image ex_imread 1 ex_session)) = [] \<and>
   int (length (img_paths ex_session)) \<le> 5 \<and>
   set_input_image ex_imread 5 ex_session = (Inr (image ex_session), ex_session)"
proof -
  have a: "0 \<le> (1::int) \<and> 1 < int (length (img_paths ex_session))"
    by (simp add: ex_session_eq)
  have b: "(5::int) < 0 \<or> int (length (img_paths ex_session)) \<le> 5"
    by (simp add: ex_session_eq)
  note inside = set_input_image_cases [of 1 ex_session ex_imread, THEN conjunct1, rule_format, OF a]
  note outside = set_input_image_cases [of 5 ex_session ex_imread, THEN conjunct2, rule_format, OF b]
  have c: "int (length (img_paths ex_session)) \<le> 5"
    by (simp add: ex_session_eq)
  show ?thesis using a c inside outside by blast
qed

subsection \<open>Adding a point without a model session\<close>

text \<open>
  Claim C4 as stated fails. On a freshly constructed object, with no directory loaded,
  \<open>add_point\<close> raises \<open>AttributeError\<close>, not a \<open>NoActiveSession\<close> error, and the clicked point
  has already been appended.
\<close>

theorem add_point_fresh_counterexample:
  "fst (add_point ex_points_call 0 4 7 (init_gui ''ckpt'' ''cfg'')) = Inl AttributeError \<and>
   fst (add_point ex_points_call 0 4 7 (init_gui ''ckpt'' ''cfg'')) \<noteq> Inl NoActiveSession \<and>
   selected_points (snd (add_point ex_points_call 0 4 7 (init_gui ''ckpt'' ''cfg''))) = [(7, 4)]"
  by (simp add: add_point_def get_sam_mask_def init_gui_def)

text \<open>
  Claim C4, amended. In every session in which \<open>get_sam_features\<close> has not been called, so
  in particular in every session that has loaded no directory and initialised no model
  session, \<open>add_point\<close> appends the point \<open>[j, i]\<close> and the current label and then fails with
  the \<open>AttributeError\<close> of reading \<open>self.inference_state\<close>, whatever the model would have
  answered. The program has no error of its own for this case.
\<close>

theorem add_point_without_session:
  assumes "list_all (\<lambda>c. \<not> is_get_sam_features c) calls"
  shows "fst (add_point model frame_idx i j (session ckpt cfg calls)) = Inl AttributeError \<and>
         selected_points (snd (add_point model frame_idx i j (session ckpt cfg calls)))
           = selected_points (session ckpt cfg calls) @ [(j, i)] \<and>
         selected_labels (snd (add_point model frame_idx i j (session ckpt cfg calls)))
           = selected_labels (session ckpt cfg calls) @ [cur_label_val (session ckpt cfg calls)]"
proof -
  have 1: "sam_model (session ckpt cfg calls) \<noteq> None"
    by (simp add: session_def fold_exec_sam_model init_gui_def)
  have 2: "inference_state (session ckpt cfg calls) = None"
    using assms by (simp add: session_def fold_exec_inference_state init_gui_def)
  show ?thesis
    by (simp add: add_point_no_state [OF 1 2])
qed

theorem add_point_without_session_witness:
  "fst (add_point ex_points_call 0 4 7 (session ''ckpt'' ''cfg'' [SetNegative, AddNewMask]))
     = Inl AttributeError \<and>
   selected_points (snd (add_point ex_points_call 0 4 7
       (session ''ckpt'' ''cfg'' [SetNegative, AddNewMask]))) = [(7, 4)] \<and>
   selected_labels (snd (add_point ex_points_call 0 4 7
       (session ''ckpt'' ''cfg'' [SetNegative, AddNewMask]))) = [0]"
proof -
  have h: "list_all (\<lambda>c. \<not> is_get_sam_features c) [SetNegative, AddNewMask]"
    by simp
  have s: "selected_points (session ''ckpt'' ''cfg'' [SetNegative, AddNewMask]) = [] \<and>
           selected_labels (session ''ckpt'' ''cfg'' [SetNegative, AddNewMask]) = [] \<and>
           cur_label_val (session ''ckpt'' ''cfg'' [SetNegative, AddNewMask]) = 0"
    by (simp add: session_def init_gui_def set_negative_def add_new_mask_def clear_points_def)
  show ?thesis
    using add_point_without_session [OF h, of ex_points_call 0 4 7 "''ckpt''" "''cfg''"] s
    by simp
qed

subsection \<open>Loading a directory\<close>

lemma prefix_le_mono: "(p::string) \<le> q \<Longrightarrow> pre @ p \<le> pre @ q"
  by (induction pre) simp_all

lemma sorted_map_prefix: "sorted (ps::string list) \<Longrightarrow> sorted (map (\<lambda>p. pre @ p) ps)"
  by (induction ps) (auto simp: prefix_le_mono)

text \<open>
  Claim C10. When \<open>os.listdir\<close> returns the entries of the directory, \<open>set_img_dir\<close> stores
  as frame sequence the paths of exactly those entries whose lower-cased name has, by
  \<open>os.path.splitext\<close>, the extension \<open>.png\<close>, \<open>.jpg\<close> or \<open>.jpeg\<close>: the accepted entries in
  sorted order, each behind \<open>img_dir/\<close>. The stored list is itself sorted, every other
  entry is left out without an error, and the number returned is the number of accepted
  entries.
\<close>

theorem set_img_dir_lists_images:
  assumes "listdir dir = Inr entries"
  shows "fst (set_img_dir listdir dir s) = Inr (length (filter isimage entries)) \<and>
         img_paths (snd (set_img_dir listdir dir s))
           = map (\<lambda>p. dir @ ''/'' @ p) (sort (filter isimage entries)) \<and>
         sorted (img_paths (snd (set_img_dir listdir dir s))) \<and>
         set (img_paths (snd (set_img_dir listdir dir s)))
           = (\<lambda>p. dir @ ''/'' @ p) ` {p \<in> set entries.
                snd (splitext (lower p)) \<in> {''.png'', ''.jpg'', ''.jpeg''}}"
proof -
  have eq: "filter isimage (sort entries) = sort (filter isimage entries)"
    by (rule filter_sort)
  have paths: "img_paths (snd (set_img_dir listdir dir s))
      = map (\<lambda>p. dir @ ''/'' @ p) (sort (filter isimage entries))"
    using assms by (simp add: set_img_dir_def Let_def eq)
  have "sorted (map (\<lambda>p. (dir @ ''/'') @ p) (sort (filter isimage entries)))"
    by (rule sorted_map_prefix) simp
  then have srt: "sorted (img_paths (snd (set_img_dir listdir dir s)))"
    by (simp add: paths)
  have cnt: "fst (set_img_dir listdir dir s) = Inr (length (filter isimage entries))"
    using assms by (simp add: set_img_dir_def Let_def eq)
  have st: "set (img_paths (snd (set_img_dir listdir dir s)))
           = (\<lambda>p. dir @ ''/'' @ p) ` {p \<in> set entries.
                snd (splitext (lower p)) \<in> {''.png'', ''.jpg'', ''.jpeg''}}"
    by (auto simp: paths isimage_def)
  show ?thesis using cnt paths srt st by blast
qed

lemma ex_sorted_images:
  "sort (filter isimage [''00002.png'', ''notes.txt'', ''00001.JPG'', ''00003.jpeg''])
     = [''00001.JPG'', ''00002.png'', ''00003.jpeg'']"
  by code_simp

theorem set_img_dir_lists_images_witness:
  "fst (set_img_dir ex_listdir ''d'' (init_gui ''ckpt'' ''cfg'')) = Inr 3 \<and>
   img_paths (snd (set_img_dir ex_listdir ''d'' (init_gui ''ckpt'' ''cfg'')))
     = [''d/00001.JPG'', ''d/00002.png'', ''d/00003.jpeg'']"
proof -
  have h: "ex_listdir ''d'' = Inr [''00002.png'', ''notes.txt'', ''00001.JPG'', ''00003.jpeg'']"
    by (simp add: ex_listdir_def)
  have n: "length (filter isimage [''00002.png'', ''notes.txt'', ''00001.JPG'', ''00003.jpeg'']) = 3"
    using arg_cong [OF ex_sorted_images, of length] by simp
  note t = set_img_dir_lists_images
        [of ex_listdir "''d''" "[''00002.png'', ''notes.txt'', ''00001.JPG'', ''00003.jpeg'']"
          "init_gui ''ckpt'' ''cfg''", OF h]
  have c: "fst (set_img_dir ex_listdir ''d'' (init_gui ''ckpt'' ''cfg''))
      = Inr (length (filter isimage [''00002.png'', ''notes.txt'', ''00001.JPG'', ''00003.jpeg'']))"
    using t by blast
  have p: "img_paths (snd (set_img_dir ex_listdir ''d'' (init_gui ''ckpt'' ''cfg'')))
      = map (\<lambda>p. ''d'' @ ''/'' @ p)
          (sort (filter isimage [''00002.png'', ''notes.txt'', ''00001.JPG'', ''00003.jpeg'']))"
    using t by blast
  show ?thesis unfolding c p n ex_sorted_images by simp
qed

section \<open>Properties of propagation\<close>

subsection \<open>The mask of one frame\<close>

lemma comprehension_map:
  "(\<And>x. x \<in> set xs \<Longrightarrow> f x = Inr (g x)) \<Longrightarrow> comprehension f xs = Inr (map g xs)"
  by (induction xs) simp_all

lemma prod_list_squeeze: "prod_list (filter (\<lambda>d. d \<noteq> 1) s) = prod_list (s::nat list)"
  by (induction s) simp_all

lemma prod_list_squeeze_Suc: "prod_list (filter (\<lambda>d. d \<noteq> Suc 0) s) = prod_list s"
  by (induction s) simp_all

lemma chunk_length:
  assumes "length xs = n * sz" and "i < n"
  shows "length (take sz (drop (i * sz) xs)) = sz"
proof -
  have "Suc i * sz \<le> n * sz" using assms(2) by (intro mult_le_mono1) simp
  then show ?thesis using assms(1) by simp
qed

lemma chunk_nth:
  assumes "length xs = n * sz" and "i < n" and "j < sz"
  shows "take sz (drop (i * sz) xs) ! j = xs ! (i * sz + j)"
proof -
  have "Suc i * sz \<le> n * sz" using assms(2) by (intro mult_le_mono1) simp
  then show ?thesis using assms by simp
qed

lemma concat_nth_chunks:
  "(\<And>x. x \<in> set xss \<Longrightarrow> length x = sz) \<Longrightarrow> i < length xss \<Longrightarrow> j < sz \<Longrightarrow>
   concat xss ! (i * sz + j) = xss ! i ! j"
proof (induction xss arbitrary: i)
  case Nil
  then show ?case by simp
next
  case (Cons x xss)
  show ?case
  proof (cases i)
    case 0
    then show ?thesis using Cons.prems by (simp add: nth_append)
  next
    case (Suc k)
    have "concat xss ! (k * sz + j) = xss ! k ! j"
      using Cons.prems Suc by (intro Cons.IH) auto
    then show ?thesis using Cons.prems Suc by (simp add: nth_append add.assoc)
  qed
qed

lemma asarray_same_shape:
  "xs \<noteq> [] \<Longrightarrow> list_all (\<lambda>b. shape b = fs) xs \<Longrightarrow>
   asarray xs = Inr (NDArray (length xs # fs) (concat (map data xs)))"
  by (cases xs) (auto simp: list_all_iff)

lemma bool_masks_wf:
  assumes "shape ml = n # s" and "length ids \<le> n"
  shows "bool_masks ids ml =
     Inr (map (\<lambda>i. NDArray (filter (\<lambda>d. d \<noteq> 1) s)
                    (map gt_zero (take (prod_list s) (drop (i * prod_list s) (data ml)))))
           [0..<length ids])"
  unfolding bool_masks_def
  by (rule comprehension_map)
     (use assms in \<open>auto simp: getitem_def squeeze_def gt_zero_array_def\<close>)

lemma word_gray: "(if \<not> b then 1 else 0) * (255 :: 8 word) = (if b then 0 else 255)"
  by simp

lemma frame_mask_wf:
  assumes sh: "shape ml = n # s" and len: "length ids \<le> n" and ne: "ids \<noteq> []"
      and wf: "wf_array ml"
  shows "frame_mask ids ml = Inr (collapsed_mask 0 255 ids ml)"
proof -
  let ?sz = "prod_list s"
  let ?k = "length ids"
  let ?chunk = "\<lambda>i. map gt_zero (take ?sz (drop (i * ?sz) (data ml)))"
  let ?ms = "map (\<lambda>i. NDArray (filter (\<lambda>d. d \<noteq> 1) s) (?chunk i)) [0..<?k]"
  have dl: "length (data ml) = n * ?sz"
    using wf sh by (simp add: wf_array_def)
  have bm: "bool_masks ids ml = Inr ?ms"
    by (rule bool_masks_wf [OF sh len])
  have k0: "0 < ?k" using ne by simp
  have stack: "asarray ?ms = Inr (NDArray (?k # filter (\<lambda>d. d \<noteq> 1) s) (concat (map ?chunk [0..<?k])))"
    using asarray_same_shape [of ?ms "filter (\<lambda>d. d \<noteq> 1) s"] k0
    by (simp add: list_all_iff comp_def)
  have cl: "\<And>x. x \<in> set (map ?chunk [0..<?k]) \<Longrightarrow> length x = ?sz"
    using chunk_length [OF dl] len by auto
  have px: "concat (map ?chunk [0..<?k]) ! (i * ?sz + j) = gt_zero (data ml ! (i * ?sz + j))"
    if "i < ?k" "j < ?sz" for i j
  proof -
    have "concat (map ?chunk [0..<?k]) ! (i * ?sz + j) = map ?chunk [0..<?k] ! i ! j"
      using that by (intro concat_nth_chunks cl) simp_all
    also have "\<dots> = gt_zero (take ?sz (drop (i * ?sz) (data ml)) ! j)"
      using that chunk_length [OF dl, of i] len by simp
    also have "\<dots> = gt_zero (data ml ! (i * ?sz + j))"
      using that len chunk_nth [OF dl, of i j] by simp
    finally show ?thesis .
  qed
  have any0: "any_axis0 (NDArray (?k # filter (\<lambda>d. d \<noteq> 1) s) (concat (map ?chunk [0..<?k])))
      = Inr (NDArray (filter (\<lambda>d. d \<noteq> 1) s)
             (map (\<lambda>j. some_object_at ids ml j) [0..<?sz]))"
    using px
    by (simp add: any_axis0_def prod_list_squeeze_Suc some_object_at_def sh list_ex_iff
        cong: map_cong)
  have anyv: "np_any_axis0 ?ms =
      Inr (NDArray (filter (\<lambda>d. d \<noteq> 1) s)
             (map (\<lambda>j. some_object_at ids ml j) [0..<?sz]))"
    using stack any0 by (simp add: np_any_axis0_def)
  have fm: "frame_mask ids ml =
      Inr (grayscale (NDArray (filter (\<lambda>d. d \<noteq> 1) s)
             (map (\<lambda>j. some_object_at ids ml j) [0..<?sz])))"
    using bm anyv by (simp add: frame_mask_def)
  show ?thesis
    using fm by (simp add: grayscale_def collapsed_mask_def sh comp_def)
qed


lemma dict_set_fresh: "k \<notin> fst ` set d \<Longrightarrow> dict_set k v d = d @ [(k, v)]"
  by (induction d) auto

lemma track_loop_ok:
  "(\<And>f ids ml. (f, ids, ml) \<in> set items \<Longrightarrow> frame_mask ids ml = Inr (G ids ml)) \<Longrightarrow>
   distinct (map fst vm @ map fst items) \<Longrightarrow>
   track_loop items vm = Inr (vm @ map (\<lambda>(f, ids, ml). (f, G ids ml)) items)"
proof (induction items arbitrary: vm)
  case Nil
  then show ?case by simp
next
  case (Cons item items)
  obtain f ids ml where item: "item = (f, ids, ml)" by (cases item) auto
  have g: "frame_mask ids ml = Inr (G ids ml)"
    using Cons.prems(1) [of f ids ml] item by simp
  have fresh: "f \<notin> fst ` set vm"
    using Cons.prems(2) item by auto
  have d: "distinct (map fst (vm @ [(f, G ids ml)]) @ map fst items)"
    using Cons.prems(2) item by auto
  have "track_loop items (vm @ [(f, G ids ml)])
      = Inr ((vm @ [(f, G ids ml)]) @ map (\<lambda>(f, ids, ml). (f, G ids ml)) items)"
    using Cons.prems(1) d by (intro Cons.IH) auto
  then show ?case
    by (simp add: item g dict_set_fresh [OF fresh])
qed

lemma map_insort_key: "map f (insort_key f x xs) = insort (f x) (map f xs)"
  by (induction xs) simp_all

lemma map_sort_key: "map f (sort_key f xs) = sort (map f xs)"
  by (induction xs) (simp_all add: map_insort_key)

lemma map_filter_map_of:
  "(\<And>k v. (k, v) \<in> set d' \<Longrightarrow> map_of d k = Some v) \<Longrightarrow>
   List.map_filter (map_of d) (map fst d') = map snd d'"
proof (induction d')
  case Nil
  then show ?case by simp
next
  case (Cons x d')
  have hd: "map_of d (fst x) = Some (snd x)"
    using Cons.prems [of "fst x" "snd x"] by simp
  have "List.map_filter (map_of d) (map fst d') = map snd d'"
    using Cons.prems by (intro Cons.IH) auto
  then show ?case by (simp add: hd)
qed

lemma chronological_distinct:
  assumes "distinct (map fst d)"
  shows "chronological d = map snd (sort_key fst d)"
proof -
  have "chronological d = List.map_filter (map_of d) (map fst (sort_key fst d))"
    by (simp add: chronological_def map_sort_key)
  also have "\<dots> = map snd (sort_key fst d)"
    using assms by (intro map_filter_map_of) simp
  finally show ?thesis .
qed

lemma insort_key_map_same_key:
  "(\<And>y. fst (g y) = fst y) \<Longrightarrow>
   insort_key fst (g x) (map g xs) = map g (insort_key fst x xs)"
  by (induction xs) auto

lemma sort_key_map_same_key:
  "(\<And>y. fst (g y) = fst y) \<Longrightarrow> sort_key fst (map g xs) = map g (sort_key fst xs)"
  by (induction xs) (simp_all add: insort_key_map_same_key)

subsection \<open>Concrete frames\<close>

lemma ex_frame_mask: "frame_mask [0] ex_logits = Inr (NDArray [2, 2] [0, 255, 255, 255])"
  by code_simp

lemma ex_tracked_eq:
  "ex_tracked = ex_session \<lparr> color_masks_all :=
      [NDArray [2, 2] [0, 255, 255, 255], NDArray [2, 2] [0, 255, 255, 255]] \<rparr>"
  by (simp add: ex_tracked_def run_tracker_def ex_session_eq ex_propagate_def ex_frame_mask
      chronological_def)

lemma ex_no_objects_mask: "frame_mask [] ex_no_logits = Inr (NDArray [] [255])"
  by code_simp

lemma ex_flat_mask: "frame_mask [0] ex_flat_logits = Inr (NDArray [2] [0, 255])"
  by code_simp

lemma ex_stems: "stem ''d/00001.JPG'' = ''00001'' \<and> stem ''d/00002.png'' = ''00002''"
  by code_simp

subsection \<open>The stored masks\<close>

text \<open>
  Claim C1 as stated fails. In the concrete session the model reports one object whose
  mask is true at the first pixel of a 2 by 2 frame and false at the other three. The
  mask that \<open>run_tracker\<close> stores for the frame is 0 at the first pixel and 255 at the other
  three: the complement of what the claim describes, which is 255 at the first pixel and
  0 elsewhere.
\<close>

theorem run_tracker_polarity_counterexample:
  "color_masks_all (snd (run_tracker ex_propagate ex_session))
     = [NDArray [2, 2] [0, 255, 255, 255], NDArray [2, 2] [0, 255, 255, 255]] \<and>
   collapsed_mask 255 0 [0] ex_logits = NDArray [2, 2] [255, 0, 0, 0] \<and>
   some_object_at [0] ex_logits 0"
proof -
  have a: "color_masks_all (snd (run_tracker ex_propagate ex_session))
     = [NDArray [2, 2] [0, 255, 255, 255], NDArray [2, 2] [0, 255, 255, 255]]"
    using ex_tracked_eq by (simp add: ex_tracked_def)
  have b: "collapsed_mask 255 0 [0] ex_logits = NDArray [2, 2] [255, 0, 0, 0]"
    by code_simp
  have c: "some_object_at [0] ex_logits 0"
    by code_simp
  show ?thesis using a b c by blast
qed

text \<open>
  Claim C1, amended. When the model session exists and the generator ends normally after
  yielding well-formed items with pairwise different frame indices, \<open>run_tracker\<close> stores
  one mask per item, in increasing order of the frame index. The mask of a frame is the
  complement of the logical OR of the boolean masks of its objects, converted to 0/255:
  a pixel is 0 exactly where at least one object's mask is true and 255 elsewhere.
\<close>

theorem run_tracker_masks:
  assumes model: "sam_model s \<noteq> None"
      and st: "inference_state s = Some h"
      and gen: "propagate_in_video h = (items, None)"
      and wf: "list_all wf_item items"
      and dist: "distinct (map fst items)"
  shows "fst (run_tracker propagate_in_video s) = Inr (length items) \<and>
         color_masks_all (snd (run_tracker propagate_in_video s))
           = map (\<lambda>(frame_idx, obj_ids, mask_logits). collapsed_mask 0 255 obj_ids mask_logits)
               (sort_key fst items) \<and>
         sorted (map fst (sort_key fst items))"
proof -
  let ?G = "collapsed_mask 0 255"
  let ?g = "\<lambda>(f, ids, ml). (f, ?G ids ml)"
  have fm: "frame_mask ids ml = Inr (?G ids ml)" if "(f, ids, ml) \<in> set items" for f ids ml
  proof -
    have w: "wf_item (f, ids, ml)" using wf that by (auto simp: list_all_iff)
    then obtain n sh where sh: "shape ml = n # sh" and le: "length ids \<le> n"
      by (auto simp: wf_item_def split: list.splits)
    show ?thesis
      using w by (intro frame_mask_wf [OF sh le]) (auto simp: wf_item_def)
  qed
  have loop: "track_loop items [] = Inr (map ?g items)"
    using track_loop_ok [of items ?G "[]"] fm dist by simp
  have key: "fst (?g y) = fst y" for y :: frame_item
    by (cases y) auto
  have keys: "map fst (map ?g items) = map fst items"
    by (rule nth_equalityI) (simp_all add: key)
  have dist': "distinct (map fst (map ?g items))"
    unfolding keys by (rule dist)
  have "chronological (map ?g items) = map snd (sort_key fst (map ?g items))"
    by (rule chronological_distinct [OF dist'])
  also have "\<dots> = map snd (map ?g (sort_key fst items))"
    using key by (simp add: sort_key_map_same_key)
  also have "\<dots> = map (\<lambda>(f, ids, ml). ?G ids ml) (sort_key fst items)"
    by (simp add: comp_def split_def)
  finally have chron: "chronological (map ?g items)
      = map (\<lambda>(f, ids, ml). ?G ids ml) (sort_key fst items)" .
  have len: "length (chronological (map ?g items)) = length items"
    unfolding chron by simp
  show ?thesis
    using model st gen loop chron len by (auto simp: run_tracker_def Let_def)
qed

theorem run_tracker_masks_witness:
  "fst (run_tracker ex_propagate ex_session) = Inr 2 \<and>
   color_masks_all (snd (run_tracker ex_propagate ex_session))
     = [collapsed_mask 0 255 [0] ex_logits, collapsed_mask 0 255 [0] ex_logits]"
proof -
  have model: "sam_model ex_session \<noteq> None"
    by (simp add: ex_session_eq)
  have st: "inference_state ex_session = Some 0"
    by (simp add: ex_session_eq)
  have gen: "ex_propagate 0 = ([(0, [0], ex_logits), (1, [0], ex_logits)], None)"
    by (simp add: ex_propagate_def)
  have wf: "list_all wf_item [(0, [0], ex_logits), (1, [0], ex_logits)]"
    by (simp add: wf_item_def wf_array_def ex_logits_def)
  have dist: "distinct (map fst [(0::int, [0::int], ex_logits), (1, [0], ex_logits)])"
    by simp
  note t = run_tracker_masks
      [where propagate_in_video = ex_propagate and s = ex_session and h = 0
         and items = "[(0, [0], ex_logits), (1, [0], ex_logits)]",
       OF model st gen wf dist]
  show ?thesis using t by simp
qed

subsection \<open>Frames without a 2-dimensional mask\<close>

text \<open>
  Claim C5, evaluated on the code. When the model reports no object for a frame,
  \<open>np.any\<close> of the empty list is the scalar \<open>False\<close>, and the entry stored for the frame is
  the 0-dimensional value 255, not a 2-dimensional grid; \<open>save_masks_to_dir\<close> then raises
  its \<open>ValueError\<close> for a mask that is not 2-D. A frame of height 1 gives a
  1-dimensional entry, because \<open>squeeze\<close> drops every axis of length 1.
\<close>

theorem run_tracker_not_2d:
  "color_masks_all (snd (run_tracker ex_propagate_no_objects ex_session)) = [NDArray [] [255]] \<and>
   ndim (NDArray [] [255] :: 8 word ndarray) = 0 \<and>
   fst (save_masks_to_dir ex_fs ''out'' (snd (run_tracker ex_propagate_no_objects ex_session)))
     = Inl ValueError \<and>
   color_masks_all (snd (run_tracker ex_propagate_flat ex_session)) = [NDArray [2] [0, 255]] \<and>
   ndim (NDArray [2] [0, 255] :: 8 word ndarray) = 1"
  by (simp add: run_tracker_def ex_session_eq ex_propagate_no_objects_def ex_propagate_flat_def
      ex_no_objects_mask ex_flat_mask chronological_def ndim_def
      save_masks_to_dir_def array_any_def ex_fs_def)

section \<open>Properties of the export\<close>

lemma write_loop_ok:
  "(\<And>a. \<not> fails a) \<Longrightarrow> list_all (\<lambda>(p, m). ndim m = 2) pairs \<Longrightarrow>
   write_loop fails out pairs acts =
     (None, acts @ map (\<lambda>(p, m). ImWrite out (stem p @ ''.mask.png'') m) pairs)"
  by (induction pairs arbitrary: acts) (auto simp: Let_def)

text \<open>
  Claim C6 as stated fails in its second half. The concrete session has three frames;
  the model propagated over two of them, so two masks are stored. The export writes two
  files, not one for every frame.
\<close>

theorem save_masks_fewer_files_counterexample:
  "length (img_paths ex_tracked) = 3 \<and>
   save_masks_to_dir ex_fs ''out'' ex_tracked =
     (Inr (Saved 2 ''out''),
      [MakeDirs ''out'',
       ImWrite ''out'' ''00001.mask.png'' (NDArray [2, 2] [0, 255, 255, 255]),
       ImWrite ''out'' ''00002.mask.png'' (NDArray [2, 2] [0, 255, 255, 255])])"
  by (simp add: ex_tracked_eq ex_session_eq save_masks_to_dir_def array_any_def ex_fs_def
      ndim_def ex_stems)

text \<open>
  Claim C6, amended. When the stored mask list is empty or every stored mask is entirely
  zero, \<open>save_masks_to_dir\<close> returns one of its two "nothing to export" messages and asks
  nothing of the file system: no directory is created and no file is written. Otherwise,
  when the file system refuses nothing and every mask that is paired with a frame is
  2-dimensional, it creates the output directory and writes one file for every frame that
  has a stored mask: frames and masks are paired in order, up to the shorter of the two
  lists, and a mask that is entirely zero is written like any other.
\<close>

theorem save_masks_to_dir_cases:
  "(color_masks_all s = [] \<or> \<not> list_ex array_any (color_masks_all s) \<longrightarrow>
      (fst (save_masks_to_dir fails out s) = Inr NoMasksToExport \<or>
       fst (save_masks_to_dir fails out s) = Inr AllMasksEmpty) \<and>
      snd (save_masks_to_dir fails out s) = []) \<and>
   (color_masks_all s \<noteq> [] \<and> list_ex array_any (color_masks_all s) \<and>
    (\<forall>a. \<not> fails a) \<and>
    list_all (\<lambda>(p, m). ndim m = 2) (zip (img_paths s) (color_masks_all s)) \<longrightarrow>
      save_masks_to_dir fails out s =
        (Inr (Saved (length (color_masks_all s)) out),
         MakeDirs out #
         map (\<lambda>(p, m). ImWrite out (stem p @ ''.mask.png'') m)
           (zip (img_paths s) (color_masks_all s))))"
  by (auto simp: save_masks_to_dir_def Let_def write_loop_ok)

theorem save_masks_to_dir_cases_witness:
  "(fst (save_masks_to_dir ex_fs ''out'' ex_session) = Inr NoMasksToExport \<or>
    fst (save_masks_to_dir ex_fs ''out'' ex_session) = Inr AllMasksEmpty) \<and>
   snd (save_masks_to_dir ex_fs ''out'' ex_session) = [] \<and>
   save_masks_to_dir ex_fs ''out'' ex_tracked =
     (Inr (Saved 2 ''out''),
      [MakeDirs ''out'',
       ImWrite ''out'' ''00001.mask.png'' (NDArray [2, 2] [0, 255, 255, 255]),
       ImWrite ''out'' ''00002.mask.png'' (NDArray [2, 2] [0, 255, 255, 255])])"
proof -
  have none: "color_masks_all ex_session = [] \<or> \<not> list_ex array_any (color_masks_all ex_session)"
    by (simp add: ex_session_eq)
  note first = save_masks_to_dir_cases
      [of ex_session ex_fs "''out''", THEN conjunct1, rule_format, OF none]
  have some: "color_masks_all ex_tracked \<noteq> [] \<and> list_ex array_any (color_masks_all ex_tracked) \<and>
      (\<forall>a. \<not> ex_fs a) \<and>
      list_all (\<lambda>(p, m). ndim m = 2) (zip (img_paths ex_tracked) (color_masks_all ex_tracked))"
    by (simp add: ex_tracked_eq ex_session_eq array_any_def ex_fs_def ndim_def)
  note second = save_masks_to_dir_cases
      [of ex_tracked ex_fs "''out''", THEN conjunct2, rule_format, OF some]
  have files: "MakeDirs ''out'' #
      map (\<lambda>(p, m). ImWrite ''out'' (stem p @ ''.mask.png'') m)
        (zip (img_paths ex_tracked) (color_masks_all ex_tracked))
      = [MakeDirs ''out'',
         ImWrite ''out'' ''00001.mask.png'' (NDArray [2, 2] [0, 255, 255, 255]),
         ImWrite ''out'' ''00002.mask.png'' (NDArray [2, 2] [0, 255, 255, 255])]"
    by (simp add: ex_tracked_eq ex_session_eq ex_stems)
  have n: "length (color_masks_all ex_tracked) = 2"
    by (simp add: ex_tracked_eq)
  show ?thesis using first second files n by simp
qed

end
